theory Spec2Isabelle
  imports Complex_Main "HOL-Library.Char_ord" "HOL-Library.List_Lexorder"
begin

section \<open>Python values used by the views\<close>

text \<open>
  A string is a list of characters, each a code point below 256. A primary key is the
  canonical text of a UUID; a stored key is always truthy, and keys are ordered as their
  texts. Instants are counted in microseconds. One request runs at one instant \<open>now\<close>.
\<close>

type_synonym uuid = string
type_synonym instant = int

record datetime =
  dt_value :: instant
  dt_tzinfo :: "int option"

datatype exn =
  DoesNotExist | MultipleObjectsReturned | ValueError | TypeError | AttributeError
  | ChannelError | DatabaseError | ValidationError | Http404

text \<open>What \<open>json.loads\<close> returns: \<open>None\<close>, a bool, an int, a float, a str, a list or a dict
  (its members in the order of the text).\<close>

datatype json =
  JNull | JBool bool | JInt int | JFloat real | JStr string | JArr "json list"
  | JObj "(string \<times> json) list"

text \<open>\<open>bool(v)\<close>, as \<open>if v:\<close>, \<open>not v\<close> and \<open>v or d\<close> test it.\<close>

fun truthy_json :: "json \<Rightarrow> bool" where
  "truthy_json JNull = False"
| "truthy_json (JBool b) = b"
| "truthy_json (JInt n) = (n \<noteq> 0)"
| "truthy_json (JFloat x) = (x \<noteq> 0)"
| "truthy_json (JStr s) = (s \<noteq> [])"
| "truthy_json (JArr xs) = (xs \<noteq> [])"
| "truthy_json (JObj kv) = (kv \<noteq> [])"

text \<open>\<open>d.get(k, default)\<close> and the keys of a dict; a repeated member name keeps the place of
  its first occurrence and the value of its last.\<close>

definition dict_get :: "(string \<times> json) list \<Rightarrow> string \<Rightarrow> json \<Rightarrow> json" where
  "dict_get kv k d = (case map_of (rev kv) k of None \<Rightarrow> d | Some v \<Rightarrow> v)"

definition dict_keys :: "(string \<times> json) list \<Rightarrow> string list" where
  "dict_keys kv = rev (remdups (rev (map fst kv)))"

text \<open>\<open>v or None\<close>.\<close>

definition or_None :: "json \<Rightarrow> json option" where
  "or_None v = (if truthy_json v then Some v else None)"

text \<open>\<open>str.isdigit\<close>, \<open>str.isspace\<close> and \<open>str.lower\<close> on the code points below 256.\<close>

definition isdigit :: "char \<Rightarrow> bool" where
  "isdigit c = (c \<in> set (''0123456789'' @ [CHR 0xB2, CHR 0xB3, CHR 0xB9]))"

definition str_isdigit :: "string \<Rightarrow> bool" where
  "str_isdigit s = (s \<noteq> [] \<and> list_all isdigit s)"

definition isspace :: "char \<Rightarrow> bool" where
  "isspace c = (c \<in> set [CHR '' '', CHR 0x09, CHR 0x0A, CHR 0x0B, CHR 0x0C, CHR 0x0D,
                           CHR 0x1C, CHR 0x1D, CHR 0x1E, CHR 0x1F, CHR 0x85, CHR 0xA0])"

definition strip :: "string \<Rightarrow> string" where
  "strip s = rev (dropWhile isspace (rev (dropWhile isspace s)))"

definition upper_chars :: string where
  "upper_chars = ''ABCDEFGHIJKLMNOPQRSTUVWXYZ'' @
     [CHR 0xC0, CHR 0xC1, CHR 0xC2, CHR 0xC3, CHR 0xC4, CHR 0xC5, CHR 0xC6, CHR 0xC7,
      CHR 0xC8, CHR 0xC9, CHR 0xCA, CHR 0xCB, CHR 0xCC, CHR 0xCD, CHR 0xCE, CHR 0xCF,
      CHR 0xD0, CHR 0xD1, CHR 0xD2, CHR 0xD3, CHR 0xD4, CHR 0xD5, CHR 0xD6, CHR 0xD8,
      CHR 0xD9, CHR 0xDA, CHR 0xDB, CHR 0xDC, CHR 0xDD, CHR 0xDE]"

definition lower_chars :: string where
  "lower_chars = ''abcdefghijklmnopqrstuvwxyz'' @
     [CHR 0xE0, CHR 0xE1, CHR 0xE2, CHR 0xE3, CHR 0xE4, CHR 0xE5, CHR 0xE6, CHR 0xE7,
      CHR 0xE8, CHR 0xE9, CHR 0xEA, CHR 0xEB, CHR 0xEC, CHR 0xED, CHR 0xEE, CHR 0xEF,
      CHR 0xF0, CHR 0xF1, CHR 0xF2, CHR 0xF3, CHR 0xF4, CHR 0xF5, CHR 0xF6, CHR 0xF8,
      CHR 0xF9, CHR 0xFA, CHR 0xFB, CHR 0xFC, CHR 0xFD, CHR 0xFE]"

definition lower_char :: "char \<Rightarrow> char" where
  "lower_char c = (case map_of (zip upper_chars lower_chars) c of None \<Rightarrow> c | Some d \<Rightarrow> d)"

definition lower :: "string \<Rightarrow> string" where
  "lower s = map lower_char s"

text \<open>\<open>x or ""\<close>, \<open>x or None\<close> and \<open>if x:\<close> on an optional string.\<close>

definition or_empty :: "string option \<Rightarrow> string" where
  "or_empty x = (case x of None \<Rightarrow> [] | Some s \<Rightarrow> s)"

definition or_none :: "string option \<Rightarrow> string option" where
  "or_none x = (case x of None \<Rightarrow> None | Some s \<Rightarrow> if s = [] then None else Some s)"

definition truthy :: "string option \<Rightarrow> bool" where
  "truthy x = (or_none x \<noteq> None)"

section \<open>Data model\<close>

text \<open>
  Modelled from the spec: the models \<open>EventRegistration\<close> and \<open>WaSendMap\<close> are
  declared in modules that are not among the sources; their records follow section 3 of
  the specification and hold the fields the views read and write. A mapping gets its
  creation time when it is created and keeps it when it is updated; its correlator and
  its consumption time are optional. No uniqueness is assumed of the mapping table beyond
  what the upsert does.
  The field prefixes \<open>er_\<close>, \<open>m_\<close> keep the records apart; the rest of each name is the
  source's attribute.
\<close>

record event_registration =
  er_id :: uuid
  er_event_id :: uuid
  er_guest_id :: uuid
  er_rsvp_status :: string
  er_responded_on :: "datetime option"
  er_created_at :: instant
  er_estimated_pax :: "int option"
  er_additional_guest_count :: "int option"

record wa_send_map =
  m_id :: uuid
  m_wa_id :: string
  m_event_id :: uuid
  m_event_registration :: uuid
  m_template_wamid :: "string option"
  m_expires_at :: instant
  m_consumed_at :: "instant option"
  m_created_at :: instant

text \<open>
  A request: the token as \<open>request.headers\<close> and as \<open>request.META\<close> give it, and the
  body as \<open>json.loads\<close> decodes it (\<open>None\<close> when decoding raises).
\<close>

record request =
  headers_token :: "string option"
  meta_token :: "string option"
  json_body :: "json option"

record notification =
  n_type :: string
  n_data_type :: string
  n_action :: string
  n_id :: string
  n_event :: string
  n_rsvp_status :: string
  n_estimated_pax :: "int option"
  n_additional_guest_count :: "int option"

text \<open>
  The database tables and the channel layer. The order of a table is the order in which
  the database returns rows that the order of a query does not tell apart.
\<close>

record state =
  registrations :: "event_registration list"
  send_maps :: "wa_send_map list"
  published :: "(string \<times> notification) list"

text \<open>
  What a request finds outside the code: the environment variable, the clock, the key of
  a created row, the conversion of a looked-up value by the key fields of the two models
  (\<open>None\<close> when it raises \<open>ValidationError\<close>) and by the text field of the correlator
  (Python's \<open>str\<close> of a value that is not text), Django's \<open>parse_datetime\<close> on a text (a
  value, \<open>None\<close> for text that is not well formatted, or a raised exception), and
  whether the channel layer and the consuming update raise.
\<close>

record env =
  DJANGO_RSVP_SECRET :: string
  now :: instant
  uuid4 :: uuid
  registration_pk :: "json \<Rightarrow> uuid option"
  event_pk :: "json \<Rightarrow> uuid option"
  py_str :: "json \<Rightarrow> string"
  parse_datetime :: "string \<Rightarrow> exn + datetime option"
  group_send_raises :: "exn option"
  consume_update_raises :: "exn option"

datatype reply =
  TrackOk uuid
  | RsvpOk uuid uuid uuid string "datetime option"

datatype response =
  HttpResponseForbidden string
  | HttpResponseBadRequest string
  | JsonResponse reply
  | Unhandled exn

section \<open>Helpers of the webhooks module\<close>

definition get_header_token :: "request \<Rightarrow> string" where
  "get_header_token request =
     (case or_none (headers_token request) of
        Some t \<Rightarrow> t
      | None \<Rightarrow> (case or_none (meta_token request) of Some t \<Rightarrow> t | None \<Rightarrow> []))"

definition get_secret :: "env \<Rightarrow> string" where
  "get_secret e = DJANGO_RSVP_SECRET e"

text \<open>
  \<open>_norm_digits\<close>, on any decoded value: a falsy value gives the empty text; a text
  gives its digits; a list is joined from its items that are all-digit texts, and an item
  that is not a text raises; a dict is joined from its all-digit keys; a number or
  \<open>True\<close> cannot be iterated. The last 15 characters are kept.
\<close>

definition last15 :: "string \<Rightarrow> string" where
  "last15 d = drop (length d - 15) d"

fun digit_items :: "json list \<Rightarrow> exn + string" where
  "digit_items [] = Inr []"
| "digit_items (JStr t # xs) =
     (case digit_items xs of
        Inl x \<Rightarrow> Inl x
      | Inr d \<Rightarrow> Inr ((if str_isdigit t then t else []) @ d))"
| "digit_items (_ # xs) = Inl AttributeError"

definition norm_digits :: "json \<Rightarrow> exn + string" where
  "norm_digits s =
     (if \<not> truthy_json s then Inr []
      else (case s of
        JStr t \<Rightarrow> Inr (last15 (filter isdigit t))
      | JArr xs \<Rightarrow> map_sum id last15 (digit_items xs)
      | JObj kv \<Rightarrow> Inr (last15 (concat (filter str_isdigit (dict_keys kv))))
      | _ \<Rightarrow> Inl TypeError))"

definition utc :: int where
  "utc = 0"

definition ensure_aware :: "datetime option \<Rightarrow> datetime option" where
  "ensure_aware dt =
     (case dt of
        None \<Rightarrow> None
      | Some d \<Rightarrow> (if dt_tzinfo d = None then Some (d\<lparr>dt_tzinfo := Some utc\<rparr>) else Some d))"

definition now_utc :: "env \<Rightarrow> datetime" where
  "now_utc e = \<lparr>dt_value = now e, dt_tzinfo = Some utc\<rparr>"

text \<open>Lines 46 to 48 and 122 to 124: the check both views start with.\<close>

definition token_ok :: "env \<Rightarrow> request \<Rightarrow> bool" where
  "token_ok e request =
     (let hdr = strip (get_header_token request);
          secret = strip (get_secret e)
      in \<not> (secret = [] \<or> hdr \<noteq> secret))"

section \<open>Queries\<close>

text \<open>The value a lookup on the correlator compares: the text itself, or \<open>str\<close> of a value
  that is not a text.\<close>

definition char_value :: "env \<Rightarrow> json \<Rightarrow> string" where
  "char_value e v = (case v of JStr s \<Rightarrow> s | _ \<Rightarrow> py_str e v)"

text \<open>\<open>objects.get(pk=...)\<close> for a key: the row, or \<open>DoesNotExist\<close>.\<close>

definition get_registration :: "event_registration list \<Rightarrow> uuid \<Rightarrow> exn + event_registration" where
  "get_registration rs pk =
     (case find (\<lambda>r. er_id r = pk) rs of None \<Rightarrow> Inl DoesNotExist | Some r \<Rightarrow> Inr r)"

text \<open>
  \<open>objects.get(pk=v)\<close> for a value of the request: the value is converted to a key, which
  raises \<open>ValidationError\<close> for a value that is no key; only \<open>DoesNotExist\<close> is caught by
  the views.
\<close>

definition get_by_value ::
  "env \<Rightarrow> event_registration list \<Rightarrow> json \<Rightarrow> response + event_registration" where
  "get_by_value e rs v =
     (case registration_pk e v of
        None \<Rightarrow> Inl (Unhandled ValidationError)
      | Some pk \<Rightarrow>
          (case get_registration rs pk of
             Inl _ \<Rightarrow> Inl (HttpResponseBadRequest ''registration not found'')
           | Inr er \<Rightarrow> Inr er))"

text \<open>
  \<open>order_by("-created_at").first()\<close>: a row of greatest creation time, the earliest
  such row of the list when several share it.
\<close>

fun latest_by :: "('a \<Rightarrow> instant) \<Rightarrow> 'a list \<Rightarrow> 'a option" where
  "latest_by f [] = None"
| "latest_by f (x # xs) =
     (case latest_by f xs of
        None \<Rightarrow> Some x
      | Some y \<Rightarrow> if f x < f y then Some y else Some x)"

text \<open>\<open>.first()\<close> of a query without an order: the rows are ordered by primary key.\<close>

fun first_by_pk :: "wa_send_map list \<Rightarrow> wa_send_map option" where
  "first_by_pk [] = None"
| "first_by_pk (x # xs) =
     (case first_by_pk xs of
        None \<Rightarrow> Some x
      | Some y \<Rightarrow> if m_id y < m_id x then Some y else Some x)"

section \<open>track_send\<close>

definition days30 :: int where
  "days30 = 30 * 86400 * 1000000"

datatype upsert_key = ByWamid string | ByIdentityEvent string uuid

fun key_matches :: "upsert_key \<Rightarrow> wa_send_map \<Rightarrow> bool" where
  "key_matches (ByWamid t) m = (m_template_wamid m = Some t)"
| "key_matches (ByIdentityEvent w ev) m = (m_wa_id m = w \<and> m_event_id m = ev)"

text \<open>The \<open>defaults\<close> of the upsert, applied to a row.\<close>

definition apply_defaults :: "env \<Rightarrow> string \<Rightarrow> event_registration \<Rightarrow> wa_send_map \<Rightarrow> wa_send_map" where
  "apply_defaults e wa_id er m =
     m\<lparr>m_wa_id := wa_id, m_event_id := er_event_id er, m_event_registration := er_id er,
       m_expires_at := now e + days30\<rparr>"

definition created_row :: "env \<Rightarrow> upsert_key \<Rightarrow> string \<Rightarrow> event_registration \<Rightarrow> wa_send_map" where
  "created_row e k wa_id er =
     apply_defaults e wa_id er
       \<lparr>m_id = uuid4 e, m_wa_id = wa_id, m_event_id = er_event_id er,
        m_event_registration = er_id er,
        m_template_wamid = (case k of ByWamid t \<Rightarrow> Some t | ByIdentityEvent _ _ \<Rightarrow> None),
        m_expires_at = now e + days30, m_consumed_at = None, m_created_at = now e\<rparr>"

text \<open>
  \<open>update_or_create\<close>: no row with the key creates one, one row is updated with the
  defaults, several rows raise \<open>MultipleObjectsReturned\<close>. The view answers an
  exception of the upsert with a client error that quotes the exception; the model keeps
  the fixed part of that text.
\<close>

definition update_or_create ::
  "env \<Rightarrow> upsert_key \<Rightarrow> string \<Rightarrow> event_registration \<Rightarrow> wa_send_map list
     \<Rightarrow> exn + (wa_send_map \<times> wa_send_map list)" where
  "update_or_create e k wa_id er rows =
     (case filter (key_matches k) rows of
        [] \<Rightarrow> Inr (created_row e k wa_id er, rows @ [created_row e k wa_id er])
      | [m] \<Rightarrow> Inr (apply_defaults e wa_id er m,
                    map (\<lambda>x. if key_matches k x then apply_defaults e wa_id er x else x) rows)
      | _ # _ # _ \<Rightarrow> Inl MultipleObjectsReturned)"

text \<open>
  Lines 72 to 87: the registration the mapping is attached to. The filter on the event
  converts the value of the request to a key of the event, which raises for a value that
  is no key.
\<close>

definition track_registration ::
  "env \<Rightarrow> event_registration list \<Rightarrow> json \<Rightarrow> json \<Rightarrow> response + event_registration" where
  "track_registration e rs reg_id event_id =
     (if truthy_json reg_id then get_by_value e rs reg_id
      else (case event_pk e event_id of
        None \<Rightarrow> Inl (Unhandled ValidationError)
      | Some ev \<Rightarrow>
          (case latest_by er_created_at (filter (\<lambda>r. er_event_id r = ev) rs) of
             None \<Rightarrow> Inl (HttpResponseBadRequest ''could not resolve registration'')
           | Some er \<Rightarrow> Inr er)))"

definition track_key :: "string option \<Rightarrow> string \<Rightarrow> event_registration \<Rightarrow> upsert_key" where
  "track_key template_wamid wa_id er =
     (case template_wamid of
        Some t \<Rightarrow> ByWamid t
      | None \<Rightarrow> ByIdentityEvent wa_id (er_event_id er))"

text \<open>Lines 56 to 109, for a body that is a dict.\<close>

definition track_send_body :: "env \<Rightarrow> (string \<times> json) list \<Rightarrow> state \<Rightarrow> response \<times> state" where
  "track_send_body e body st =
     (case norm_digits (dict_get body ''wa_id'' (JStr [])) of
        Inl x \<Rightarrow> (Unhandled x, st)
      | Inr wa_id \<Rightarrow>
          (let event_id = dict_get body ''event_id'' JNull;
               reg_id = dict_get body ''event_registration_id'' JNull;
               template_wamid = map_option (char_value e) (or_None (dict_get body ''template_wamid'' JNull))
           in if wa_id = [] \<or> \<not> truthy_json event_id
              then (HttpResponseBadRequest ''missing wa_id or event_id'', st)
              else (case track_registration e (registrations st) reg_id event_id of
                Inl resp \<Rightarrow> (resp, st)
              | Inr er \<Rightarrow>
                  (case update_or_create e (track_key template_wamid wa_id er) wa_id er
                          (send_maps st) of
                     Inl _ \<Rightarrow> (HttpResponseBadRequest ''track_send error'', st)
                   | Inr (obj, rows) \<Rightarrow>
                       (JsonResponse (TrackOk (m_id obj)), st\<lparr>send_maps := rows\<rparr>)))))"

text \<open>The view: a decoded body that is not a dict has no \<open>get\<close>.\<close>

definition track_send :: "env \<Rightarrow> request \<Rightarrow> state \<Rightarrow> response \<times> state" where
  "track_send e request st =
     (if \<not> token_ok e request then (HttpResponseForbidden ''invalid token'', st)
      else (case json_body request of
        None \<Rightarrow> (HttpResponseBadRequest ''invalid json'', st)
      | Some (JObj body) \<Rightarrow> track_send_body e body st
      | Some _ \<Rightarrow> (Unhandled AttributeError, st)))"

section \<open>whatsapp_rsvp\<close>

text \<open>Line 133: the status; a truthy value that is not a text has no \<open>strip\<close>.\<close>

definition rsvp_of :: "(string \<times> json) list \<Rightarrow> exn + string" where
  "rsvp_of body =
     (let v = dict_get body ''rsvp_status'' JNull
      in if \<not> truthy_json v then Inr (lower (strip []))
         else (case v of JStr s \<Rightarrow> Inr (lower (strip s)) | _ \<Rightarrow> Inl AttributeError))"

text \<open>Lines 137 to 142: the response time; the parser raises \<open>TypeError\<close> for a value that
  is not a text.\<close>

definition responded_on_of :: "env \<Rightarrow> (string \<times> json) list \<Rightarrow> exn + datetime option" where
  "responded_on_of e body =
     (let v = dict_get body ''responded_on'' JNull
      in if truthy_json v
         then (case v of
                 JStr s \<Rightarrow>
                   (case parse_datetime e s of
                      Inl x \<Rightarrow> Inl x
                    | Inr None \<Rightarrow> Inr (Some (now_utc e))
                    | Inr (Some parsed) \<Rightarrow> Inr (ensure_aware (Some parsed)))
               | _ \<Rightarrow> Inl TypeError)
         else Inr (Some (now_utc e)))"

text \<open>Line 160: the candidate mappings.\<close>

definition base_qs :: "env \<Rightarrow> wa_send_map list \<Rightarrow> string \<Rightarrow> wa_send_map list" where
  "base_qs e rows wa_id = filter (\<lambda>m. m_wa_id m = wa_id \<and> now e < m_expires_at m) rows"

definition priority1 :: "env \<Rightarrow> wa_send_map list \<Rightarrow> json option \<Rightarrow> uuid option" where
  "priority1 e cands template_wamid =
     (case template_wamid of
        None \<Rightarrow> None
      | Some v \<Rightarrow>
          map_option m_event_registration
            (first_by_pk (filter (\<lambda>m. m_template_wamid m = Some (char_value e v)) cands)))"

text \<open>The filter on the event converts the value of the request to a key, which raises
  for a value that is no key.\<close>

definition priority2 :: "env \<Rightarrow> wa_send_map list \<Rightarrow> json option \<Rightarrow> exn + uuid option" where
  "priority2 e cands event_id =
     (case event_id of
        None \<Rightarrow> Inr None
      | Some v \<Rightarrow>
          (case event_pk e v of
             None \<Rightarrow> Inl ValidationError
           | Some ev \<Rightarrow>
               Inr (map_option m_event_registration
                      (latest_by m_created_at (filter (\<lambda>m. m_event_id m = ev) cands)))))"

definition priority3 :: "wa_send_map list \<Rightarrow> uuid option" where
  "priority3 cands = map_option m_event_registration (latest_by m_created_at cands)"

text \<open>
  Lines 160 to 194. A found key is looked up with \<open>get\<close>, whose \<open>DoesNotExist\<close> is not
  caught there.
\<close>

definition resolve_by_mapping ::
  "env \<Rightarrow> state \<Rightarrow> string \<Rightarrow> json option \<Rightarrow> json option \<Rightarrow> response + event_registration" where
  "resolve_by_mapping e st wa_id template_wamid event_id =
     (let cands = base_qs e (send_maps st) wa_id in
      (case priority1 e cands template_wamid of
        Some rid \<Rightarrow> map_sum Unhandled id (get_registration (registrations st) rid)
      | None \<Rightarrow>
          (case priority2 e cands event_id of
             Inl x \<Rightarrow> Inl (Unhandled x)
           | Inr (Some rid) \<Rightarrow> map_sum Unhandled id (get_registration (registrations st) rid)
           | Inr None \<Rightarrow>
               (case priority3 cands of
                  Some rid \<Rightarrow> map_sum Unhandled id (get_registration (registrations st) rid)
                | None \<Rightarrow> Inl (HttpResponseBadRequest ''no mapping found for wa_id'')))))"

text \<open>Lines 144 to 194.\<close>

definition resolve :: "env \<Rightarrow> state \<Rightarrow> (string \<times> json) list \<Rightarrow> response + event_registration" where
  "resolve e st body =
     (let reg_id = dict_get body ''event_registration_id'' JNull
      in if truthy_json reg_id then get_by_value e (registrations st) reg_id
         else (case norm_digits (dict_get body ''wa_id'' (JStr [])) of
           Inl x \<Rightarrow> Inl (Unhandled x)
         | Inr wa_id \<Rightarrow>
             (let template_wamid = or_None (dict_get body ''template_wamid'' JNull);
                  event_id = or_None (dict_get body ''event_id'' JNull)
              in if wa_id = [] then Inl (HttpResponseBadRequest ''missing wa_id'')
                 else resolve_by_mapping e st wa_id template_wamid event_id)))"

text \<open>Lines 197 to 199: \<open>save(update_fields=["rsvp_status", "responded_on"])\<close>.\<close>

definition save_rsvp ::
  "event_registration \<Rightarrow> event_registration list \<Rightarrow> event_registration list" where
  "save_rsvp er rs =
     map (\<lambda>r. if er_id r = er_id er
              then r\<lparr>er_rsvp_status := er_rsvp_status er, er_responded_on := er_responded_on er\<rparr>
              else r) rs"

text \<open>Lines 205 to 224: the channel and the message.\<close>

definition group_name :: "event_registration \<Rightarrow> string" where
  "group_name er = ''event_'' @ er_event_id er"

definition rsvp_message :: "event_registration \<Rightarrow> notification" where
  "rsvp_message er =
     \<lparr>n_type = ''rsvp_update'', n_data_type = ''rsvp_changed'', n_action = ''updated'',
      n_id = er_id er, n_event = er_event_id er, n_rsvp_status = er_rsvp_status er,
      n_estimated_pax = er_estimated_pax er,
      n_additional_guest_count = er_additional_guest_count er\<rparr>"

text \<open>
  Lines 228 to 238: the query of the mappings to mark. Whatever raises while it is built
  is caught with the rest of the block.
\<close>

definition consume_query ::
  "env \<Rightarrow> event_registration \<Rightarrow> (string \<times> json) list \<Rightarrow> exn + (wa_send_map \<Rightarrow> bool)" where
  "consume_query e er body =
     (case norm_digits (dict_get body ''wa_id'' (JStr [])) of
        Inl x \<Rightarrow> Inl x
      | Inr wa_id \<Rightarrow>
          (let template_wamid = or_None (dict_get body ''template_wamid'' JNull);
               event_id = or_None (dict_get body ''event_id'' JNull)
           in (case template_wamid of
                 Some v \<Rightarrow>
                   Inr (\<lambda>m. m_event_registration m = er_id er \<and>
                            m_template_wamid m = Some (char_value e v))
               | None \<Rightarrow>
                   (if wa_id \<noteq> [] \<and> event_id \<noteq> None
                    then (case event_pk e (the event_id) of
                            None \<Rightarrow> Inl ValidationError
                          | Some ev \<Rightarrow>
                              Inr (\<lambda>m. m_event_registration m = er_id er \<and>
                                       m_wa_id m = wa_id \<and> m_event_id m = ev))
                    else if wa_id \<noteq> []
                    then Inr (\<lambda>m. m_event_registration m = er_id er \<and> m_wa_id m = wa_id)
                    else Inr (\<lambda>m. m_event_registration m = er_id er)))))"

text \<open>Lines 227 to 242: the marking, which never raises.\<close>

definition try_mark_consumed ::
  "env \<Rightarrow> event_registration \<Rightarrow> (string \<times> json) list \<Rightarrow> state \<Rightarrow> state" where
  "try_mark_consumed e er body st =
     (case consume_query e er body of
        Inl _ \<Rightarrow> st
      | Inr q \<Rightarrow>
          (case consume_update_raises e of
             Some _ \<Rightarrow> st
           | None \<Rightarrow>
               st\<lparr>send_maps :=
                    map (\<lambda>m. if q m then m\<lparr>m_consumed_at := Some (now e)\<rparr> else m) (send_maps st)\<rparr>))"

definition rsvp_reply :: "event_registration \<Rightarrow> response" where
  "rsvp_reply er =
     JsonResponse (RsvpOk (er_id er) (er_event_id er) (er_guest_id er) (er_rsvp_status er)
                     (er_responded_on er))"

text \<open>Lines 196 to 253, for a resolved registration.\<close>

definition apply_rsvp ::
  "env \<Rightarrow> (string \<times> json) list \<Rightarrow> string \<Rightarrow> datetime option \<Rightarrow> event_registration \<Rightarrow> state
     \<Rightarrow> response \<times> state" where
  "apply_rsvp e body rsvp responded_on er0 st =
     (let er = er0\<lparr>er_rsvp_status := rsvp, er_responded_on := responded_on\<rparr>;
          st1 = st\<lparr>registrations := save_rsvp er (registrations st)\<rparr>
      in (case group_send_raises e of
            Some x \<Rightarrow> (Unhandled x, st1)
          | None \<Rightarrow>
              (let st2 = st1\<lparr>published := published st1 @ [(group_name er, rsvp_message er)]\<rparr>
               in (rsvp_reply er, try_mark_consumed e er body st2))))"

text \<open>Lines 133 to 253, for a body that is a dict.\<close>

definition whatsapp_rsvp_body :: "env \<Rightarrow> (string \<times> json) list \<Rightarrow> state \<Rightarrow> response \<times> state" where
  "whatsapp_rsvp_body e body st =
     (case rsvp_of body of
        Inl x \<Rightarrow> (Unhandled x, st)
      | Inr rsvp \<Rightarrow>
          (if rsvp \<notin> {''yes'', ''no'', ''maybe''}
           then (HttpResponseBadRequest ''invalid rsvp_status'', st)
           else (case responded_on_of e body of
             Inl x \<Rightarrow> (Unhandled x, st)
           | Inr responded_on \<Rightarrow>
               (case resolve e st body of
                  Inl resp \<Rightarrow> (resp, st)
                | Inr er \<Rightarrow> apply_rsvp e body rsvp responded_on er st))))"

definition whatsapp_rsvp :: "env \<Rightarrow> request \<Rightarrow> state \<Rightarrow> response \<times> state" where
  "whatsapp_rsvp e request st =
     (if \<not> token_ok e request then (HttpResponseForbidden ''invalid token'', st)
      else (case json_body request of
        None \<Rightarrow> (HttpResponseBadRequest ''invalid json'', st)
      | Some (JObj body) \<Rightarrow> whatsapp_rsvp_body e body st
      | Some _ \<Rightarrow> (Unhandled AttributeError, st)))"

section \<open>Runs of the webhooks\<close>




section \<open>send_template\<close>

text \<open>
  Modelled from the spec: the models of the guest, \<open>MessageTemplate\<close> and
  \<open>QueuedMessage\<close>, which the view \<open>SendLocalTemplateView.post\<close> uses, are declared
  outside the sources; the records hold the fields the view uses, as section 3 of the
  specification names them. The guest of a registration, the stored templates and the
  queue are tables; \<open>outbox\<close> lists the calls made to the channel client, in order,
  whether or not the call succeeds.
\<close>

record guest =
  g_id :: uuid
  g_phone :: "string option"
  g_name :: string

record message_template =
  t_id :: uuid
  t_body :: string

record queued_message =
  q_event :: uuid
  q_registration :: uuid
  q_template :: uuid
  q_rendered_text :: string

datatype outbound = FreeformText string string | ResumeOpener string string

text \<open>The request data as the serializer validates it: no template id is invalid data.\<close>

record send_input =
  in_template_id :: "uuid option"
  in_variables :: "(string \<times> string) list option"

record send_state =
  s_registrations :: "event_registration list"
  s_guests :: "guest list"
  s_templates :: "message_template list"
  queued_messages :: "queued_message list"
  outbox :: "outbound list"

text \<open>
  The collaborators of the view, which are not part of this module: the context builder,
  the renderer, the window test and the two channel calls, and whether the insert into
  the queue raises.
\<close>

record send_env =
  build_registration_context :: "event_registration \<Rightarrow> (string \<times> string) list"
  render_template_with_vars :: "message_template \<Rightarrow> (string \<times> string) list \<Rightarrow> exn + string"
  within_24h_window :: "datetime option \<Rightarrow> bool"
  send_freeform_text :: "string \<Rightarrow> string \<Rightarrow> exn + string"
  send_resume_opener :: "string \<Rightarrow> string \<Rightarrow> exn + string"
  queue_create_raises :: "exn option"

datatype send_payload = Sent string | Queued string | Failed string

datatype api_response = Response send_payload nat | Raised exn

definition HTTP_200_OK :: nat where "HTTP_200_OK = 200"
definition HTTP_400_BAD_REQUEST :: nat where "HTTP_400_BAD_REQUEST = 400"
definition HTTP_500_INTERNAL_SERVER_ERROR :: nat where "HTTP_500_INTERNAL_SERVER_ERROR = 500"
definition HTTP_502_BAD_GATEWAY :: nat where "HTTP_502_BAD_GATEWAY = 502"

definition guest_phone :: "send_state \<Rightarrow> event_registration \<Rightarrow> string option" where
  "guest_phone st reg =
     (case find (\<lambda>g. g_id g = er_guest_id reg) (s_guests st) of
        None \<Rightarrow> None
      | Some g \<Rightarrow> or_none (g_phone g))"

definition queued_for :: "event_registration \<Rightarrow> message_template \<Rightarrow> string \<Rightarrow> queued_message" where
  "queued_for reg tmpl text =
     \<lparr>q_event = er_event_id reg, q_registration = er_id reg, q_template = t_id tmpl,
      q_rendered_text = text\<rparr>"

text \<open>Lines 78 to 125: the decision and the two paths, for a rendered text and a recipient.\<close>

definition deliver ::
  "send_env \<Rightarrow> event_registration \<Rightarrow> message_template \<Rightarrow> string \<Rightarrow> string \<Rightarrow> send_state
     \<Rightarrow> api_response \<times> send_state" where
  "deliver e reg tmpl text to_wa st =
     (if within_24h_window e (er_responded_on reg)
      then (let st1 = st\<lparr>outbox := outbox st @ [FreeformText to_wa text]\<rparr>
            in (case send_freeform_text e to_wa text of
                  Inr msg_id \<Rightarrow> (Response (Sent msg_id) HTTP_200_OK, st1)
                | Inl _ \<Rightarrow> (Response (Failed ''send_failed'') HTTP_502_BAD_GATEWAY, st1)))
      else (case queue_create_raises e of
              Some _ \<Rightarrow> (Response (Failed ''queue_failed'') HTTP_500_INTERNAL_SERVER_ERROR, st)
            | None \<Rightarrow>
                (let st1 = st\<lparr>queued_messages := queued_messages st @ [queued_for reg tmpl text]\<rparr>;
                     st2 = st1\<lparr>outbox := outbox st1 @ [ResumeOpener to_wa (er_id reg)]\<rparr>
                 in (case send_resume_opener e to_wa (er_id reg) of
                       Inr opener_id \<Rightarrow> (Response (Queued opener_id) HTTP_200_OK, st2)
                     | Inl _ \<Rightarrow> (Response (Failed ''opener_failed'') HTTP_502_BAD_GATEWAY, st2)))))"

definition post ::
  "send_env \<Rightarrow> send_input \<Rightarrow> uuid \<Rightarrow> uuid \<Rightarrow> send_state \<Rightarrow> api_response \<times> send_state" where
  "post e data event_id registration_id st =
     (case in_template_id data of
        None \<Rightarrow> (Raised ValidationError, st)
      | Some template_id \<Rightarrow>
          (case find (\<lambda>r. er_id r = registration_id \<and> er_event_id r = event_id)
                  (s_registrations st) of
             None \<Rightarrow> (Raised Http404, st)
           | Some reg \<Rightarrow>
               (case find (\<lambda>t. t_id t = template_id) (s_templates st) of
                  None \<Rightarrow> (Raised Http404, st)
                | Some tmpl \<Rightarrow>
                    (case render_template_with_vars e tmpl (build_registration_context e reg) of
                       Inl _ \<Rightarrow> (Response (Failed ''render_failed'') HTTP_400_BAD_REQUEST, st)
                     | Inr text \<Rightarrow>
                         (case guest_phone st reg of
                            None \<Rightarrow>
                              (Response (Failed ''guest_has_no_phone'') HTTP_400_BAD_REQUEST, st)
                          | Some to_wa \<Rightarrow> deliver e reg tmpl text to_wa st)))))"

section \<open>The resolution as the specification words it\<close>



section \<open>The invariant of the mapping table\<close>

text \<open>
  Among the rows with a correlator no two share it, and among the rows without one no two
  share the pair of identity and event.
\<close>

definition send_map_invariant :: "wa_send_map list \<Rightarrow> bool" where
  "send_map_invariant rows =
     (distinct (map m_template_wamid (filter (\<lambda>m. m_template_wamid m \<noteq> None) rows)) \<and>
      distinct (map (\<lambda>m. (m_wa_id m, m_event_id m))
                 (filter (\<lambda>m. m_template_wamid m = None) rows)))"

section \<open>Example data\<close>

definition ex_pk :: "json \<Rightarrow> uuid option" where
  "ex_pk v = (case v of JStr s \<Rightarrow> if s = ''not-a-uuid'' then None else Some s | _ \<Rightarrow> None)"

definition ex_env :: env where
  "ex_env =
     \<lparr>DJANGO_RSVP_SECRET = ''s3cret'', now = 1000, uuid4 = ''m-new'',
      registration_pk = ex_pk, event_pk = ex_pk, py_str = (\<lambda>v. ''value''),
      parse_datetime = (\<lambda>s. if s = ''2024-01-01T10:00:00''
                              then Inr (Some \<lparr>dt_value = 500, dt_tzinfo = None\<rparr>)
                              else if s = ''2024-02-30T10:00:00'' then Inl ValueError
                              else Inr None),
      group_send_raises = None, consume_update_raises = None\<rparr>"

definition ex_reg :: "uuid \<Rightarrow> uuid \<Rightarrow> instant \<Rightarrow> event_registration" where
  "ex_reg rid ev created =
     \<lparr>er_id = rid, er_event_id = ev, er_guest_id = ''g-'' @ rid, er_rsvp_status = ''unset'',
      er_responded_on = None, er_created_at = created, er_estimated_pax = Some 2,
      er_additional_guest_count = None\<rparr>"

definition ex_map ::
  "uuid \<Rightarrow> string \<Rightarrow> uuid \<Rightarrow> uuid \<Rightarrow> string option \<Rightarrow> instant \<Rightarrow> instant \<Rightarrow> wa_send_map" where
  "ex_map mid wa ev rid wamid expires created =
     \<lparr>m_id = mid, m_wa_id = wa, m_event_id = ev, m_event_registration = rid,
      m_template_wamid = wamid, m_expires_at = expires, m_consumed_at = None,
      m_created_at = created\<rparr>"

definition ex_request :: "string \<Rightarrow> json option \<Rightarrow> request" where
  "ex_request token b = \<lparr>headers_token = Some token, meta_token = Some token, json_body = b\<rparr>"

definition ex_state :: state where
  "ex_state =
     \<lparr>registrations = [ex_reg ''R1'' ''E1'' 10, ex_reg ''R2'' ''E1'' 20, ex_reg ''R3'' ''E2'' 30],
      send_maps = [ex_map ''M1'' ''15551234567'' ''E1'' ''R1'' None 5000 100],
      published = []\<rparr>"

definition ex_rsvp_body :: "(string \<times> json) list" where
  "ex_rsvp_body =
     [(''wa_id'', JStr ''+1 (555) 123-4567''), (''event_id'', JStr ''E1''),
      (''rsvp_status'', JStr '' YES '')]"

definition ex_track_body :: "(string \<times> json) list" where
  "ex_track_body = [(''wa_id'', JStr ''15551234567''), (''event_id'', JStr ''E1'')]"

definition ex_send_env :: "bool \<Rightarrow> exn option \<Rightarrow> bool \<Rightarrow> send_env" where
  "ex_send_env in_window queue_raises channel_fails =
     \<lparr>build_registration_context = (\<lambda>_. []),
      render_template_with_vars = (\<lambda>t _. Inr (t_body t)),
      within_24h_window = (\<lambda>_. in_window),
      send_freeform_text = (\<lambda>_ _. if channel_fails then Inl ChannelError else Inr ''wamid.1''),
      send_resume_opener = (\<lambda>_ _. if channel_fails then Inl ChannelError else Inr ''wamid.2''),
      queue_create_raises = queue_raises\<rparr>"

definition ex_send_state :: send_state where
  "ex_send_state =
     \<lparr>s_registrations = [ex_reg ''R1'' ''E1'' 10],
      s_guests = [\<lparr>g_id = ''g-R1'', g_phone = Some ''15551234567'', g_name = ''Ann''\<rparr>],
      s_templates = [\<lparr>t_id = ''T1'', t_body = ''Hello''\<rparr>],
      queued_messages = [], outbox = []\<rparr>"

definition ex_send_input :: send_input where
  "ex_send_input = \<lparr>in_template_id = Some ''T1'', in_variables = None\<rparr>"

definition ex_row :: "uuid \<Rightarrow> string \<Rightarrow> wa_send_map" where
  "ex_row mid wamid = ex_map mid ''15551234567'' ''E1'' ''R2'' (Some wamid) 2592000001000 1000"








section \<open>Basic facts\<close>

lemma whatsapp_rsvp_resolved:
  "token_ok e request \<Longrightarrow> json_body request = Some (JObj body) \<Longrightarrow>
   rsvp_of body = Inr rsvp \<Longrightarrow> rsvp \<in> {''yes'', ''no'', ''maybe''} \<Longrightarrow>
   responded_on_of e body = Inr ro \<Longrightarrow>
   whatsapp_rsvp e request st =
     (case resolve e st body of
        Inl resp \<Rightarrow> (resp, st)
      | Inr er \<Rightarrow> apply_rsvp e body rsvp ro er st)"
  by (auto simp: whatsapp_rsvp_def whatsapp_rsvp_body_def)

lemma get_registration_absent:
  "pk \<notin> er_id ` set rs \<Longrightarrow> get_registration rs pk = Inl DoesNotExist"
  by (auto simp: get_registration_def find_None_iff split: option.splits)

lemma get_registration_found:
  "get_registration rs pk = Inr r \<Longrightarrow> r \<in> set rs \<and> er_id r = pk"
  by (auto simp: get_registration_def find_Some_iff split: option.splits)

lemma get_by_value_found:
  "get_by_value e rs v = Inr r \<Longrightarrow> r \<in> set rs \<and> registration_pk e v = Some (er_id r)"
  by (auto simp: get_by_value_def dest: get_registration_found split: option.splits sum.splits)

lemma get_by_value_Inl:
  "get_by_value e rs v = Inl resp \<Longrightarrow> resp \<noteq> JsonResponse r"
  by (auto simp: get_by_value_def split: option.splits sum.splits)



lemma first_by_pk_None: "first_by_pk xs = None \<longleftrightarrow> xs = []"
  by (cases xs) (auto split: option.splits)

lemma first_by_pk_single: "first_by_pk [x] = Some x"
  by simp

lemma save_rsvp_row:
  "r \<in> set (save_rsvp er rs) \<Longrightarrow> er_id r = er_id er \<Longrightarrow>
     er_rsvp_status r = er_rsvp_status er \<and> er_responded_on r = er_responded_on er"
  by (auto simp: save_rsvp_def)

lemma map_sum_id_Inr: "map_sum f id x = Inr y \<longleftrightarrow> x = Inr y"
  by (cases x) auto

lemma save_rsvp_present:
  "er \<in> set rs \<Longrightarrow> er_id er' = er_id er \<Longrightarrow> \<exists>r \<in> set (save_rsvp er' rs). er_id r = er_id er"
  by (induction rs) (auto simp: save_rsvp_def)

lemma map_sum_id_Inl: "map_sum Unhandled id x = Inl y \<Longrightarrow> \<exists>z. y = Unhandled z"
  by (cases x) auto

lemma resolve_by_mapping_found:
  "resolve_by_mapping e st wa tw ev = Inr er \<Longrightarrow> er \<in> set (registrations st)"
  by (auto simp: resolve_by_mapping_def Let_def map_sum_id_Inr
      dest: get_registration_found split: option.splits sum.splits)

lemma resolve_by_mapping_Inl:
  "resolve_by_mapping e st wa tw ev = Inl resp \<Longrightarrow> resp \<noteq> JsonResponse r"
  by (auto simp: resolve_by_mapping_def Let_def
      dest: map_sum_id_Inl split: option.splits sum.splits)

lemma resolve_found: "resolve e st b = Inr er \<Longrightarrow> er \<in> set (registrations st)"
  by (auto simp: resolve_def Let_def
      dest: get_by_value_found resolve_by_mapping_found split: sum.splits if_splits)

lemma resolve_Inl: "resolve e st b = Inl resp \<Longrightarrow> resp \<noteq> JsonResponse r"
  by (auto simp: resolve_def Let_def
      dest: get_by_value_Inl resolve_by_mapping_Inl split: sum.splits if_splits)

section \<open>Facts about the upsert\<close>

lemma map_filter_map_cong:
  "(\<And>x. x \<in> set xs \<Longrightarrow> P (g x) = P x \<and> (P x \<longrightarrow> f (g x) = f x)) \<Longrightarrow>
     map f (filter P (map g xs)) = map f (filter P xs)"
  by (induction xs) auto

lemma filter_map_commute:
  "(\<And>x. x \<in> set xs \<Longrightarrow> P (g x) = P x) \<Longrightarrow> filter P (map g xs) = map g (filter P xs)"
  by (induction xs) auto

lemma send_map_invariant_filter:
  "send_map_invariant rows \<Longrightarrow> send_map_invariant (filter P rows)"
proof -
  assume inv: "send_map_invariant rows"
  have sw: "filter Q (filter P rows) = filter P (filter Q rows)" for Q
    by (induction rows) auto
  show ?thesis
    using inv unfolding send_map_invariant_def sw by (simp only: distinct_map_filter)
qed

lemma track_key_created:
  "key_matches (track_key tw wa er) (created_row e (track_key tw wa er) wa er)"
  by (cases tw) (simp_all add: track_key_def created_row_def apply_defaults_def)

lemma track_key_updated:
  "key_matches (track_key tw wa er) x \<Longrightarrow> key_matches (track_key tw wa er) (apply_defaults e wa er x)"
  by (cases tw) (simp_all add: track_key_def apply_defaults_def)

lemma apply_defaults_fields:
  "m_expires_at (apply_defaults e wa er x) = now e + days30"
  "m_event_registration (apply_defaults e wa er x) = er_id er"
  "m_event_id (apply_defaults e wa er x) = er_event_id er"
  "m_wa_id (apply_defaults e wa er x) = wa"
  "m_template_wamid (apply_defaults e wa er x) = m_template_wamid x"
  "m_id (apply_defaults e wa er x) = m_id x"
  by (simp_all add: apply_defaults_def)

lemma invariant_append:
  assumes inv: "send_map_invariant rows" and none: "filter (key_matches (track_key tw wa er)) rows = []"
  shows "send_map_invariant (rows @ [created_row e (track_key tw wa er) wa er])"
proof (cases tw)
  case None
  from none have "\<forall>x \<in> set rows. \<not> (m_wa_id x = wa \<and> m_event_id x = er_event_id er)"
    by (auto simp: None track_key_def filter_empty_conv)
  then show ?thesis using inv
    by (auto simp: send_map_invariant_def None track_key_def created_row_def apply_defaults_def)
next
  case (Some t)
  from none have "\<forall>x \<in> set rows. m_template_wamid x \<noteq> Some t"
    by (auto simp: Some track_key_def filter_empty_conv)
  then show ?thesis using inv
    by (auto simp: send_map_invariant_def Some track_key_def created_row_def apply_defaults_def)
qed

lemma invariant_update:
  assumes inv: "send_map_invariant rows"
  shows "send_map_invariant
     (map (\<lambda>x. if key_matches (track_key tw wa er) x then apply_defaults e wa er x else x) rows)"
proof -
  let ?g = "\<lambda>x. if key_matches (track_key tw wa er) x then apply_defaults e wa er x else x"
  have w: "m_template_wamid (?g x) = m_template_wamid x" for x
    by (simp add: apply_defaults_fields)
  have p: "m_template_wamid x = None \<Longrightarrow> (m_wa_id (?g x), m_event_id (?g x)) = (m_wa_id x, m_event_id x)" for x
    by (cases tw) (auto simp: track_key_def apply_defaults_fields)
  have "map m_template_wamid (filter (\<lambda>m. m_template_wamid m \<noteq> None) (map ?g rows))
      = map m_template_wamid (filter (\<lambda>m. m_template_wamid m \<noteq> None) rows)"
    by (rule map_filter_map_cong) (simp add: w)
  moreover have "map (\<lambda>m. (m_wa_id m, m_event_id m)) (filter (\<lambda>m. m_template_wamid m = None) (map ?g rows))
      = map (\<lambda>m. (m_wa_id m, m_event_id m)) (filter (\<lambda>m. m_template_wamid m = None) rows)"
    by (rule map_filter_map_cong) (use w p in auto)
  ultimately show ?thesis using inv by (simp add: send_map_invariant_def)
qed

lemma update_or_create_result:
  assumes "update_or_create e (track_key tw wa er) wa er rows = Inr (obj, rows')"
  shows "filter (key_matches (track_key tw wa er)) rows' = [obj]"
    and "m_expires_at obj = now e + days30"
    and "m_event_registration obj = er_id er"
    and "m_event_id obj = er_event_id er"
    and "m_wa_id obj = wa"
    and "send_map_invariant rows \<Longrightarrow> send_map_invariant rows'"
proof -
  let ?k = "track_key tw wa er"
  let ?g = "\<lambda>x. if key_matches ?k x then apply_defaults e wa er x else x"
  consider (create) "filter (key_matches ?k) rows = []" "obj = created_row e ?k wa er"
      "rows' = rows @ [obj]"
    | (update) m where "filter (key_matches ?k) rows = [m]" "obj = apply_defaults e wa er m"
      "rows' = map ?g rows"
    using assms by (auto simp: update_or_create_def split: list.splits)
  then have "filter (key_matches ?k) rows' = [obj] \<and> m_expires_at obj = now e + days30 \<and>
      m_event_registration obj = er_id er \<and> m_event_id obj = er_event_id er \<and> m_wa_id obj = wa \<and>
      (send_map_invariant rows \<longrightarrow> send_map_invariant rows')"
  proof cases
    case create
    then show ?thesis
      using track_key_created [of tw wa er e] invariant_append [of rows tw wa er e]
      by (simp add: created_row_def apply_defaults_fields)
  next
    case update
    have "filter (key_matches ?k) (map ?g rows) = map ?g (filter (key_matches ?k) rows)"
      by (rule filter_map_commute) (simp add: track_key_updated)
    moreover have "key_matches ?k m"
    proof -
      have "m \<in> set (filter (key_matches ?k) rows)" by (simp add: update(1))
      then show ?thesis by simp
    qed
    ultimately show ?thesis
      using update invariant_update [of rows tw wa er e]
      by (simp add: apply_defaults_fields)
  qed
  then show "filter (key_matches (track_key tw wa er)) rows' = [obj]"
    and "m_expires_at obj = now e + days30"
    and "m_event_registration obj = er_id er"
    and "m_event_id obj = er_event_id er"
    and "m_wa_id obj = wa"
    and "send_map_invariant rows \<Longrightarrow> send_map_invariant rows'"
    by simp_all
qed


lemma track_registration_Inl:
  "track_registration e rs reg_id ev = Inl resp \<Longrightarrow> resp \<noteq> JsonResponse r"
  by (auto simp: track_registration_def dest: get_by_value_Inl split: option.splits if_splits)

lemma key_matches_conv:
  "key_matches (ByWamid t) = (\<lambda>m. m_template_wamid m = Some t)"
  "key_matches (ByIdentityEvent w ev) = (\<lambda>m. m_wa_id m = w \<and> m_event_id m = ev)"
  by (rule ext, simp)+

lemma track_send_steps:
  assumes "token_ok e rq" and "json_body rq = Some (JObj b)"
    and "norm_digits (dict_get b ''wa_id'' (JStr [])) = Inr wa" and "wa \<noteq> []"
    and "truthy_json (dict_get b ''event_id'' JNull)"
    and "track_registration e (registrations st) (dict_get b ''event_registration_id'' JNull)
           (dict_get b ''event_id'' JNull) = Inr er"
  shows "track_send e rq st =
     (case update_or_create e
             (track_key (map_option (char_value e) (or_None (dict_get b ''template_wamid'' JNull))) wa er)
             wa er (send_maps st) of
        Inl _ \<Rightarrow> (HttpResponseBadRequest ''track_send error'', st)
      | Inr (obj, rows) \<Rightarrow> (JsonResponse (TrackOk (m_id obj)), st\<lparr>send_maps := rows\<rparr>))"
  using assms by (simp add: track_send_def track_send_body_def Let_def)

lemma track_send_ok:
  assumes "fst (track_send e request st) = JsonResponse (TrackOk mid)"
  obtains b wa er obj rows' where "json_body request = Some (JObj b)"
    and "norm_digits (dict_get b ''wa_id'' (JStr [])) = Inr wa" and "wa \<noteq> []"
    and "truthy_json (dict_get b ''event_id'' JNull)"
    and "track_registration e (registrations st) (dict_get b ''event_registration_id'' JNull)
           (dict_get b ''event_id'' JNull) = Inr er"
    and "update_or_create e
           (track_key (map_option (char_value e) (or_None (dict_get b ''template_wamid'' JNull))) wa er)
           wa er (send_maps st) = Inr (obj, rows')"
    and "m_id obj = mid" and "snd (track_send e request st) = st\<lparr>send_maps := rows'\<rparr>"
  using assms
  by (auto simp: track_send_def track_send_body_def Let_def dest: track_registration_Inl
      split: if_splits option.splits sum.splits prod.splits json.splits)

lemma track_send_maps:
  "send_maps (snd (track_send e request st)) = send_maps st \<or>
   (\<exists>tw wa er obj. update_or_create e (track_key tw wa er) wa er (send_maps st)
        = Inr (obj, send_maps (snd (track_send e request st))))"
  by (auto simp: track_send_def track_send_body_def Let_def
      split: if_splits option.splits sum.splits prod.splits json.splits)

lemma track_send_registrations:
  "registrations (snd (track_send e request st)) = registrations st"
  by (auto simp: track_send_def track_send_body_def Let_def
      split: if_splits option.splits sum.splits prod.splits json.splits)

lemma filter_swap:
  "filter A (filter (\<lambda>m. B m \<and> C m) xs) = filter C (filter (\<lambda>m. B m \<and> A m) xs)"
  by (induction xs) auto






section \<open>Facts about the example data\<close>

lemmas str_defs = strip_def isspace_def lower_def lower_char_def upper_chars_def lower_chars_def
  isdigit_def str_isdigit_def last15_def or_none_def or_empty_def truthy_def

lemma dict_get_append:
  "dict_get (kv @ [(k, v)]) k' d = (if k' = k then v else dict_get kv k' d)"
  by (simp add: dict_get_def)

lemma ex_rsvp_get:
  "dict_get ex_rsvp_body ''wa_id'' d = JStr ''+1 (555) 123-4567''"
  "dict_get ex_rsvp_body ''event_id'' d = JStr ''E1''"
  "dict_get ex_rsvp_body ''rsvp_status'' d = JStr '' YES ''"
  "dict_get ex_rsvp_body ''event_registration_id'' d = d"
  "dict_get ex_rsvp_body ''template_wamid'' d = d"
  "dict_get ex_rsvp_body ''responded_on'' d = d"
  by (simp_all add: dict_get_def ex_rsvp_body_def)

lemma ex_track_get:
  "dict_get ex_track_body ''wa_id'' d = JStr ''15551234567''"
  "dict_get ex_track_body ''event_id'' d = JStr ''E1''"
  "dict_get ex_track_body ''event_registration_id'' d = d"
  "dict_get ex_track_body ''template_wamid'' d = d"
  by (simp_all add: dict_get_def ex_track_body_def)

lemma ex_env_fields:
  "DJANGO_RSVP_SECRET ex_env = ''s3cret''" "now ex_env = 1000"
  "group_send_raises ex_env = None" "consume_update_raises ex_env = None"
  "registration_pk ex_env = ex_pk" "event_pk ex_env = ex_pk"
  by (simp_all add: ex_env_def)

lemma ex_pk_text:
  "ex_pk (JStr ''E1'') = Some ''E1''" "ex_pk (JStr ''E2'') = Some ''E2''"
  "ex_pk (JStr ''E7'') = Some ''E7''" "ex_pk (JStr ''E9'') = Some ''E9''"
  "ex_pk (JStr ''R1'') = Some ''R1''" "ex_pk (JStr ''R2'') = Some ''R2''"
  "ex_pk (JStr ''R9'') = Some ''R9''" "ex_pk (JStr ''not-a-uuid'') = None"
  by (simp_all add: ex_pk_def)

lemma ex_norm:
  "norm_digits (JStr ''+1 (555) 123-4567'') = Inr ''15551234567''"
  "norm_digits (JStr ''15551234567'') = Inr ''15551234567''"
  "norm_digits (JStr ''n/a'') = Inr []" "norm_digits (JStr ''999'') = Inr ''999''"
  "norm_digits (JInt 15551234567) = Inl TypeError"
  by (simp_all add: norm_digits_def str_defs)

lemma ex_token': "DJANGO_RSVP_SECRET e = ''s3cret'' \<Longrightarrow> token_ok e (ex_request ''s3cret'' b)"
  by (simp add: token_ok_def get_header_token_def get_secret_def ex_request_def str_defs)

lemma ex_json: "json_body (ex_request t b) = b"
  by (simp add: ex_request_def)

lemma ex_rsvp':
  "dict_get b ''rsvp_status'' JNull = JStr '' YES '' \<Longrightarrow> rsvp_of b = Inr ''yes''"
  by (simp add: rsvp_of_def str_defs)

lemma ex_responded_now:
  "\<not> truthy_json (dict_get b ''responded_on'' JNull) \<Longrightarrow> now e = 1000 \<Longrightarrow>
     responded_on_of e b = Inr (Some \<lparr>dt_value = 1000, dt_tzinfo = Some 0\<rparr>)"
  by (simp add: responded_on_of_def now_utc_def utc_def)

lemma ex_map_fields:
  "m_id (ex_map i w ev r t x c) = i" "m_wa_id (ex_map i w ev r t x c) = w"
  "m_event_id (ex_map i w ev r t x c) = ev" "m_event_registration (ex_map i w ev r t x c) = r"
  "m_template_wamid (ex_map i w ev r t x c) = t" "m_expires_at (ex_map i w ev r t x c) = x"
  "m_created_at (ex_map i w ev r t x c) = c" "m_consumed_at (ex_map i w ev r t x c) = None"
  by (simp_all add: ex_map_def)

lemma ex_cands:
  "now e = 1000 \<Longrightarrow> base_qs e (send_maps ex_state) ''15551234567''
     = [ex_map ''M1'' ''15551234567'' ''E1'' ''R1'' None 5000 100]"
  by (simp add: base_qs_def ex_state_def ex_map_def)

lemma ex_get_R1: "get_registration (registrations ex_state) ''R1'' = Inr (ex_reg ''R1'' ''E1'' 10)"
  by (simp add: get_registration_def ex_state_def ex_reg_def)

lemma ex_resolve_by_mapping:
  "now e = 1000 \<Longrightarrow> event_pk e = ex_pk \<Longrightarrow>
     resolve_by_mapping e ex_state ''15551234567'' None (Some (JStr ''E1''))
       = Inr (ex_reg ''R1'' ''E1'' 10)"
  by (simp add: resolve_by_mapping_def ex_cands priority1_def priority2_def ex_map_fields ex_get_R1
      ex_pk_text)

lemma ex_resolve':
  "now e = 1000 \<Longrightarrow> event_pk e = ex_pk \<Longrightarrow>
     resolve e ex_state ex_rsvp_body = Inr (ex_reg ''R1'' ''E1'' 10)"
  by (simp add: resolve_def ex_rsvp_get or_None_def ex_norm ex_resolve_by_mapping)

lemma ex_consume_query:
  "event_pk e = ex_pk \<Longrightarrow>
     consume_query e er ex_rsvp_body
       = Inr (\<lambda>m. m_event_registration m = er_id er \<and> m_wa_id m = ''15551234567'' \<and>
                   m_event_id m = ''E1'')"
  by (simp add: consume_query_def ex_rsvp_get or_None_def ex_norm ex_pk_text)

lemma ex_apply_rsvp:
  "now e = 1000 \<Longrightarrow> event_pk e = ex_pk \<Longrightarrow>
   apply_rsvp e ex_rsvp_body ''yes'' ro (ex_reg ''R1'' ''E1'' 10) ex_state =
     (case group_send_raises e of
        Some x \<Rightarrow>
          (Unhandled x,
           ex_state\<lparr>registrations :=
             [(ex_reg ''R1'' ''E1'' 10)\<lparr>er_rsvp_status := ''yes'', er_responded_on := ro\<rparr>,
              ex_reg ''R2'' ''E1'' 20, ex_reg ''R3'' ''E2'' 30]\<rparr>)
      | None \<Rightarrow>
          (JsonResponse (RsvpOk ''R1'' ''E1'' ''g-R1'' ''yes'' ro),
           \<lparr>registrations =
             [(ex_reg ''R1'' ''E1'' 10)\<lparr>er_rsvp_status := ''yes'', er_responded_on := ro\<rparr>,
              ex_reg ''R2'' ''E1'' 20, ex_reg ''R3'' ''E2'' 30],
            send_maps =
              (case consume_update_raises e of
                 Some _ \<Rightarrow> [ex_map ''M1'' ''15551234567'' ''E1'' ''R1'' None 5000 100]
               | None \<Rightarrow> [(ex_map ''M1'' ''15551234567'' ''E1'' ''R1'' None 5000 100)
                            \<lparr>m_consumed_at := Some 1000\<rparr>]),
            published = [(''event_E1'',
              \<lparr>n_type = ''rsvp_update'', n_data_type = ''rsvp_changed'', n_action = ''updated'',
               n_id = ''R1'', n_event = ''E1'', n_rsvp_status = ''yes'', n_estimated_pax = Some 2,
               n_additional_guest_count = None\<rparr>)]\<rparr>))"
  by (simp add: apply_rsvp_def Let_def save_rsvp_def group_name_def rsvp_message_def rsvp_reply_def
      try_mark_consumed_def ex_consume_query ex_state_def ex_reg_def ex_map_def
      split: option.splits)

lemma ex_whatsapp_rsvp:
  "DJANGO_RSVP_SECRET e = ''s3cret'' \<Longrightarrow> now e = 1000 \<Longrightarrow> event_pk e = ex_pk \<Longrightarrow>
   whatsapp_rsvp e (ex_request ''s3cret'' (Some (JObj ex_rsvp_body))) ex_state =
     apply_rsvp e ex_rsvp_body ''yes'' (Some \<lparr>dt_value = 1000, dt_tzinfo = Some 0\<rparr>)
       (ex_reg ''R1'' ''E1'' 10) ex_state"
proof -
  assume s: "DJANGO_RSVP_SECRET e = ''s3cret''" and n: "now e = 1000" and p: "event_pk e = ex_pk"
  have v: "rsvp_of ex_rsvp_body = Inr ''yes''"
    by (rule ex_rsvp') (simp add: ex_rsvp_get)
  have r: "responded_on_of e ex_rsvp_body = Inr (Some \<lparr>dt_value = 1000, dt_tzinfo = Some 0\<rparr>)"
    by (rule ex_responded_now [OF _ n]) (simp add: ex_rsvp_get)
  show ?thesis
    using whatsapp_rsvp_resolved [OF ex_token' [OF s] ex_json v _ r, of ex_state] ex_resolve' [OF n p]
    by simp
qed

lemma ex_parse:
  "parse_datetime ex_env ''soon'' = Inr None"
  "parse_datetime ex_env ''2024-01-01T10:00:00'' = Inr (Some \<lparr>dt_value = 500, dt_tzinfo = None\<rparr>)"
  "parse_datetime ex_env ''2024-02-30T10:00:00'' = Inl ValueError"
  by (simp_all add: ex_env_def)

lemmas send_defs = ex_send_env_def ex_send_state_def ex_send_input_def ex_reg_def guest_phone_def
  or_none_def







section \<open>The priority order of the resolution\<close>









section \<open>Failures of the send orchestrator\<close>

text \<open>
  C3. In the send view, for a found registration and template, a rendered text and a
  recipient: outside the 24-hour window the queued message with the rendered text is
  inserted before the opener is sent; when the insert raises the response is the server
  error 500 and the state is unchanged, so nothing is sent; when the insert succeeds the
  message is in the queue whatever the opener call does, and an opener that raises gives
  the gateway error 502. Inside the window a free-form send that raises gives the gateway
  error 502 and the queue is unchanged.
\<close>

theorem send_failures:
  assumes "in_template_id data = Some tid"
    and "find (\<lambda>r. er_id r = registration_id \<and> er_event_id r = event_id) (s_registrations st) = Some reg"
    and "find (\<lambda>t. t_id t = tid) (s_templates st) = Some tmpl"
    and "render_template_with_vars e tmpl (build_registration_context e reg) = Inr text"
    and "guest_phone st reg = Some to_wa"
  shows
  "(\<not> within_24h_window e (er_responded_on reg) \<and> queue_create_raises e \<noteq> None \<longrightarrow>
      post e data event_id registration_id st = (Response (Failed ''queue_failed'') 500, st)) \<and>
   (\<not> within_24h_window e (er_responded_on reg) \<and> queue_create_raises e = None \<longrightarrow>
      queued_messages (snd (post e data event_id registration_id st))
        = queued_messages st @
            [\<lparr>q_event = er_event_id reg, q_registration = er_id reg, q_template = t_id tmpl,
              q_rendered_text = text\<rparr>] \<and>
      outbox (snd (post e data event_id registration_id st))
        = outbox st @ [ResumeOpener to_wa (er_id reg)]) \<and>
   (\<not> within_24h_window e (er_responded_on reg) \<and> queue_create_raises e = None \<and>
    isl (send_resume_opener e to_wa (er_id reg)) \<longrightarrow>
      fst (post e data event_id registration_id st) = Response (Failed ''opener_failed'') 502) \<and>
   (within_24h_window e (er_responded_on reg) \<and> isl (send_freeform_text e to_wa text) \<longrightarrow>
      fst (post e data event_id registration_id st) = Response (Failed ''send_failed'') 502 \<and>
      queued_messages (snd (post e data event_id registration_id st)) = queued_messages st \<and>
      outbox (snd (post e data event_id registration_id st)) = outbox st @ [FreeformText to_wa text])"
proof -
  have "post e data event_id registration_id st = deliver e reg tmpl text to_wa st"
    using assms by (simp add: post_def)
  then show ?thesis
    by (auto simp: deliver_def queued_for_def Let_def HTTP_500_INTERNAL_SERVER_ERROR_def
        HTTP_502_BAD_GATEWAY_def split: option.splits sum.splits)
qed

theorem send_failures_witness:
  "post (ex_send_env False (Some DatabaseError) False) ex_send_input ''E1'' ''R1'' ex_send_state
     = (Response (Failed ''queue_failed'') 500, ex_send_state) \<and>
   fst (post (ex_send_env False None True) ex_send_input ''E1'' ''R1'' ex_send_state)
     = Response (Failed ''opener_failed'') 502 \<and>
   queued_messages (snd (post (ex_send_env False None True) ex_send_input ''E1'' ''R1'' ex_send_state))
     = [\<lparr>q_event = ''E1'', q_registration = ''R1'', q_template = ''T1'', q_rendered_text = ''Hello''\<rparr>] \<and>
   outbox (snd (post (ex_send_env False None True) ex_send_input ''E1'' ''R1'' ex_send_state))
     = [ResumeOpener ''15551234567'' ''R1''] \<and>
   fst (post (ex_send_env True None True) ex_send_input ''E1'' ''R1'' ex_send_state)
     = Response (Failed ''send_failed'') 502 \<and>
   queued_messages (snd (post (ex_send_env True None True) ex_send_input ''E1'' ''R1'' ex_send_state)) = []"
proof -
  have h1: "in_template_id ex_send_input = Some ''T1''" by (simp add: send_defs)
  have h2: "find (\<lambda>r. er_id r = ''R1'' \<and> er_event_id r = ''E1'') (s_registrations ex_send_state)
      = Some (ex_reg ''R1'' ''E1'' 10)" by (simp add: send_defs)
  have h3: "find (\<lambda>t. t_id t = ''T1'') (s_templates ex_send_state) = Some \<lparr>t_id = ''T1'', t_body = ''Hello''\<rparr>"
    by (simp add: send_defs)
  have h4: "render_template_with_vars (ex_send_env w q c) \<lparr>t_id = ''T1'', t_body = ''Hello''\<rparr>
      (build_registration_context (ex_send_env w q c) (ex_reg ''R1'' ''E1'' 10)) = Inr ''Hello''" for w q c
    by (simp add: send_defs)
  have h5: "guest_phone ex_send_state (ex_reg ''R1'' ''E1'' 10) = Some ''15551234567''"
    by (simp add: send_defs)
  show ?thesis
    using send_failures [OF h1 h2 h3 h4 h5, of False "Some DatabaseError" False]
      send_failures [OF h1 h2 h3 h4 h5, of False None True]
      send_failures [OF h1 h2 h3 h4 h5, of True None True]
    by (simp add: send_defs)
qed

section \<open>Publishing the update\<close>

text \<open>
  C4 as stated fails: a failing publish does not leave the request successful. With a
  channel layer that raises, the request for the first registration of the example ends
  with the unhandled exception, after the registration was saved.
\<close>

theorem publish_failure_counterexample:
  "fst (whatsapp_rsvp (ex_env\<lparr>group_send_raises := Some ChannelError\<rparr>)
          (ex_request ''s3cret'' (Some (JObj ex_rsvp_body))) ex_state) = Unhandled ChannelError \<and>
   map er_rsvp_status
     (registrations (snd (whatsapp_rsvp (ex_env\<lparr>group_send_raises := Some ChannelError\<rparr>)
          (ex_request ''s3cret'' (Some (JObj ex_rsvp_body))) ex_state))) = [''yes'', ''unset'', ''unset'']"
proof -
  let ?e = "ex_env\<lparr>group_send_raises := Some ChannelError\<rparr>"
  let ?ro = "Some \<lparr>dt_value = 1000, dt_tzinfo = Some 0\<rparr>"
  have f: "DJANGO_RSVP_SECRET ?e = ''s3cret''" "now ?e = 1000" "event_pk ?e = ex_pk"
    by (simp_all add: ex_env_fields)
  have a: "apply_rsvp ?e ex_rsvp_body ''yes'' ?ro (ex_reg ''R1'' ''E1'' 10) ex_state =
      (Unhandled ChannelError,
       ex_state\<lparr>registrations :=
         [(ex_reg ''R1'' ''E1'' 10)\<lparr>er_rsvp_status := ''yes'', er_responded_on := ?ro\<rparr>,
          ex_reg ''R2'' ''E1'' 20, ex_reg ''R3'' ''E2'' 30]\<rparr>)"
    using ex_apply_rsvp [OF f(2) f(3), of ?ro] by simp
  show ?thesis
    unfolding ex_whatsapp_rsvp [OF f] a by (simp add: ex_reg_def)
qed

text \<open>
  C4, amended. After the RSVP of a resolved registration is saved, the message is sent to
  the group \<open>event_<event_id>\<close> with the action "updated" and the registration's id,
  event id, status and party sizes, and the request answers with the registration. When
  the channel layer raises, nothing catches it: the request ends with that exception, no
  message is recorded, the mappings are not marked, and the saved registration stays.
\<close>

theorem publish_after_mutation:
  assumes "token_ok e request" and "json_body request = Some (JObj b)"
    and "rsvp_of b = Inr rsvp" and "rsvp \<in> {''yes'', ''no'', ''maybe''}"
    and "responded_on_of e b = Inr ro"
    and "resolve e st b = Inr er"
  shows
   "(group_send_raises e = None \<longrightarrow>
       published (snd (whatsapp_rsvp e request st))
         = published st @ [(''event_'' @ er_event_id er,
              \<lparr>n_type = ''rsvp_update'', n_data_type = ''rsvp_changed'', n_action = ''updated'',
               n_id = er_id er, n_event = er_event_id er, n_rsvp_status = rsvp,
               n_estimated_pax = er_estimated_pax er,
               n_additional_guest_count = er_additional_guest_count er\<rparr>)] \<and>
       fst (whatsapp_rsvp e request st)
         = JsonResponse (RsvpOk (er_id er) (er_event_id er) (er_guest_id er) rsvp ro)) \<and>
    (\<forall>x. group_send_raises e = Some x \<longrightarrow>
       fst (whatsapp_rsvp e request st) = Unhandled x \<and>
       published (snd (whatsapp_rsvp e request st)) = published st \<and>
       send_maps (snd (whatsapp_rsvp e request st)) = send_maps st \<and>
       registrations (snd (whatsapp_rsvp e request st))
         = save_rsvp (er\<lparr>er_rsvp_status := rsvp, er_responded_on := ro\<rparr>) (registrations st))"
  using whatsapp_rsvp_resolved [OF assms(1-5), of st] assms(6)
  by (simp add: apply_rsvp_def Let_def group_name_def rsvp_message_def rsvp_reply_def
        try_mark_consumed_def split: option.splits sum.splits)

theorem publish_after_mutation_witness:
  "published (snd (whatsapp_rsvp ex_env (ex_request ''s3cret'' (Some (JObj ex_rsvp_body))) ex_state))
     = [(''event_E1'',
         \<lparr>n_type = ''rsvp_update'', n_data_type = ''rsvp_changed'', n_action = ''updated'',
          n_id = ''R1'', n_event = ''E1'', n_rsvp_status = ''yes'', n_estimated_pax = Some 2,
          n_additional_guest_count = None\<rparr>)] \<and>
   fst (whatsapp_rsvp ex_env (ex_request ''s3cret'' (Some (JObj ex_rsvp_body))) ex_state)
     = JsonResponse (RsvpOk ''R1'' ''E1'' ''g-R1'' ''yes'' (Some \<lparr>dt_value = 1000, dt_tzinfo = Some 0\<rparr>)) \<and>
   fst (whatsapp_rsvp (ex_env\<lparr>group_send_raises := Some ChannelError\<rparr>)
          (ex_request ''s3cret'' (Some (JObj ex_rsvp_body))) ex_state) = Unhandled ChannelError \<and>
   published (snd (whatsapp_rsvp (ex_env\<lparr>group_send_raises := Some ChannelError\<rparr>)
          (ex_request ''s3cret'' (Some (JObj ex_rsvp_body))) ex_state)) = []"
proof -
  let ?e = "ex_env\<lparr>group_send_raises := Some ChannelError\<rparr>"
  let ?ro = "Some \<lparr>dt_value = 1000, dt_tzinfo = Some 0\<rparr>"
  let ?rq = "ex_request ''s3cret'' (Some (JObj ex_rsvp_body))"
  have f: "DJANGO_RSVP_SECRET ?e = ''s3cret''" "now ?e = 1000" "event_pk ?e = ex_pk"
    by (simp_all add: ex_env_fields)
  have y: "rsvp_of ex_rsvp_body = Inr ''yes''" by (rule ex_rsvp') (simp add: ex_rsvp_get)
  have v: "''yes'' \<in> {''yes'', ''no'', ''maybe''}" by simp
  have n: "\<not> truthy_json (dict_get ex_rsvp_body ''responded_on'' JNull)" by (simp add: ex_rsvp_get)
  have reg: "er_id (ex_reg ''R1'' ''E1'' 10) = ''R1''" "er_event_id (ex_reg ''R1'' ''E1'' 10) = ''E1''"
    "er_guest_id (ex_reg ''R1'' ''E1'' 10) = ''g-R1''" "er_estimated_pax (ex_reg ''R1'' ''E1'' 10) = Some 2"
    "er_additional_guest_count (ex_reg ''R1'' ''E1'' 10) = None"
    by (simp_all add: ex_reg_def)
  have pub: "published ex_state = []" by (simp add: ex_state_def)
  have a: "group_send_raises ex_env = None" by (rule ex_env_fields)
  have b: "group_send_raises ?e = Some ChannelError" by simp
  note t1 = publish_after_mutation [OF ex_token' [OF ex_env_fields(1)] ex_json y v
      ex_responded_now [OF n ex_env_fields(2)] ex_resolve' [OF ex_env_fields(2) ex_env_fields(6)],
      unfolded reg pub, THEN conjunct1, rule_format, OF a]
  note t2 = publish_after_mutation [OF ex_token' [OF f(1)] ex_json y v
      ex_responded_now [OF n f(2)] ex_resolve' [OF f(2) f(3)],
      unfolded reg pub, THEN conjunct2, rule_format, OF b]
  from t1 t2 show ?thesis by simp
qed

section \<open>The upsert and its invariant\<close>

lemma ex_invariant: "send_map_invariant (send_maps ex_state)"
  by (simp add: send_map_invariant_def ex_state_def ex_map_def)

lemma ex_track_registration:
  "event_pk e = ex_pk \<Longrightarrow>
     track_registration e (registrations ex_state) JNull (JStr ''E1'') = Inr (ex_reg ''R2'' ''E1'' 20)"
  by (simp add: track_registration_def ex_pk_text ex_state_def ex_reg_def)

lemma ex_track_send:
  "fst (track_send ex_env (ex_request ''s3cret'' (Some (JObj ex_track_body))) ex_state)
     = JsonResponse (TrackOk ''M1'')"
proof -
  have r: "track_registration ex_env (registrations ex_state)
      (dict_get ex_track_body ''event_registration_id'' JNull)
      (dict_get ex_track_body ''event_id'' JNull) = Inr (ex_reg ''R2'' ''E1'' 20)"
    unfolding ex_track_get by (rule ex_track_registration) (rule ex_env_fields)
  have n: "norm_digits (dict_get ex_track_body ''wa_id'' (JStr [])) = Inr ''15551234567''"
    by (simp add: ex_track_get ex_norm)
  have ne: "''15551234567'' \<noteq> []" by simp
  have ev: "truthy_json (dict_get ex_track_body ''event_id'' JNull)" by (simp add: ex_track_get)
  show ?thesis
    unfolding track_send_steps [OF ex_token' [OF ex_env_fields(1)] ex_json n ne ev r]
    by (simp add: ex_track_get or_None_def track_key_def update_or_create_def ex_state_def
        ex_map_def ex_reg_def apply_defaults_def)
qed

text \<open>
  C6. The upsert of the send-tracking webhook keeps the invariant of the mapping table: no
  two rows share a correlator, and no two rows without correlator share identity and
  event; the same holds of the rows that are live at any instant. After a successful
  request the row it names is the only row with the request's correlator when one is
  given, and otherwise the only row with the normalized identity and the event; its
  expiry is the time of the request plus 30 days, whether the row was created or
  overwritten.
\<close>

theorem upsert_keeps_invariant:
  assumes "send_map_invariant (send_maps st)"
  shows
   "send_map_invariant (send_maps (snd (track_send e request st))) \<and>
    (\<forall>t. send_map_invariant
            (filter (\<lambda>m. t < m_expires_at m) (send_maps (snd (track_send e request st))))) \<and>
    (\<forall>mid b. fst (track_send e request st) = JsonResponse (TrackOk mid) \<and>
        json_body request = Some (JObj b) \<longrightarrow>
        (\<exists>obj \<in> set (send_maps (snd (track_send e request st))).
            m_id obj = mid \<and> m_expires_at obj = now e + 30 * 86400 * 1000000 \<and>
            (\<forall>v. or_None (dict_get b ''template_wamid'' JNull) = Some v \<longrightarrow>
               filter (\<lambda>m. m_template_wamid m = Some (char_value e v))
                 (send_maps (snd (track_send e request st))) = [obj]) \<and>
            (or_None (dict_get b ''template_wamid'' JNull) = None \<longrightarrow>
               (\<exists>wa. norm_digits (dict_get b ''wa_id'' (JStr [])) = Inr wa \<and>
                  filter (\<lambda>m. m_wa_id m = wa \<and> m_event_id m = m_event_id obj)
                    (send_maps (snd (track_send e request st))) = [obj]))))"
proof -
  let ?rows' = "send_maps (snd (track_send e request st))"
  have inv: "send_map_invariant ?rows'"
    using track_send_maps [of e request st] assms
    by (auto dest: update_or_create_result(6))
  have post: "\<exists>obj \<in> set ?rows'.
            m_id obj = mid \<and> m_expires_at obj = now e + 30 * 86400 * 1000000 \<and>
            (\<forall>v. or_None (dict_get b ''template_wamid'' JNull) = Some v \<longrightarrow>
               filter (\<lambda>m. m_template_wamid m = Some (char_value e v)) ?rows' = [obj]) \<and>
            (or_None (dict_get b ''template_wamid'' JNull) = None \<longrightarrow>
               (\<exists>wa. norm_digits (dict_get b ''wa_id'' (JStr [])) = Inr wa \<and>
                  filter (\<lambda>m. m_wa_id m = wa \<and> m_event_id m = m_event_id obj) ?rows' = [obj]))"
    if ok: "fst (track_send e request st) = JsonResponse (TrackOk mid)"
      and b: "json_body request = Some (JObj b)" for mid b
  proof -
    let ?tw = "map_option (char_value e) (or_None (dict_get b ''template_wamid'' JNull))"
    from ok b obtain wa er obj rows' where
      n: "norm_digits (dict_get b ''wa_id'' (JStr [])) = Inr wa"
      and u: "update_or_create e (track_key ?tw wa er) wa er (send_maps st) = Inr (obj, rows')"
      and mid: "m_id obj = mid" and st': "snd (track_send e request st) = st\<lparr>send_maps := rows'\<rparr>"
      by (auto elim!: track_send_ok)
    note r = update_or_create_result [OF u]
    have rows: "?rows' = rows'" by (simp add: st')
    have "obj \<in> set (filter (key_matches (track_key ?tw wa er)) rows')"
      by (simp add: r(1))
    then have mem: "obj \<in> set rows'" by simp
    have k1: "filter (\<lambda>m. m_template_wamid m = Some (char_value e v)) rows' = [obj]"
      if "or_None (dict_get b ''template_wamid'' JNull) = Some v" for v
      using r(1) that by (simp add: track_key_def key_matches_conv)
    have k2: "filter (\<lambda>m. m_wa_id m = wa \<and> m_event_id m = m_event_id obj) rows' = [obj]"
      if "or_None (dict_get b ''template_wamid'' JNull) = None"
      using r(1) r(4) that by (simp add: track_key_def key_matches_conv)
    show ?thesis
      unfolding rows using mem mid r(2) k1 k2 n by (auto simp: days30_def)
  qed
  from inv post send_map_invariant_filter [OF inv] show ?thesis by blast
qed

theorem upsert_keeps_invariant_witness:
  "send_map_invariant (send_maps ex_state) \<and>
   send_map_invariant (send_maps (snd (track_send ex_env (ex_request ''s3cret'' (Some (JObj ex_track_body))) ex_state))) \<and>
   (\<exists>obj \<in> set (send_maps (snd (track_send ex_env (ex_request ''s3cret'' (Some (JObj ex_track_body))) ex_state))).
      m_id obj = ''M1'' \<and> m_expires_at obj = now ex_env + 30 * 86400 * 1000000 \<and>
      filter (\<lambda>m. m_wa_id m = ''15551234567'' \<and> m_event_id m = m_event_id obj)
        (send_maps (snd (track_send ex_env (ex_request ''s3cret'' (Some (JObj ex_track_body))) ex_state))) = [obj])"
proof -
  let ?rq = "ex_request ''s3cret'' (Some (JObj ex_track_body))"
  note u = upsert_keeps_invariant [OF ex_invariant, of ex_env ?rq]
  note p = u [THEN conjunct2, THEN conjunct2, rule_format, OF conjI [OF ex_track_send ex_json]]
  from u [THEN conjunct1] p ex_invariant show ?thesis
    by (simp add: or_None_def ex_track_get ex_norm)
qed

section \<open>Consuming the mapping\<close>



section \<open>The shared secret\<close>

text \<open>
  C10. For both webhooks, when the configured secret is unset or empty (also after
  stripping), every request is answered with the forbidden response whatever token it
  carries, an empty token included. The answer does not depend on the body, which may not
  even decode, and the state is returned as it was.
\<close>

theorem reject_when_secret_empty:
  "strip (DJANGO_RSVP_SECRET e) = [] \<Longrightarrow>
     track_send e request st = (HttpResponseForbidden ''invalid token'', st) \<and>
     whatsapp_rsvp e request st = (HttpResponseForbidden ''invalid token'', st)"
  by (simp add: track_send_def whatsapp_rsvp_def token_ok_def get_secret_def)

theorem reject_when_secret_empty_witness:
  "strip (DJANGO_RSVP_SECRET (ex_env\<lparr>DJANGO_RSVP_SECRET := []\<rparr>)) = [] \<and>
   track_send (ex_env\<lparr>DJANGO_RSVP_SECRET := []\<rparr>) (ex_request [] None) ex_state
     = (HttpResponseForbidden ''invalid token'', ex_state) \<and>
   whatsapp_rsvp (ex_env\<lparr>DJANGO_RSVP_SECRET := []\<rparr>) (ex_request [] None) ex_state
     = (HttpResponseForbidden ''invalid token'', ex_state)"
  using reject_when_secret_empty [of "ex_env\<lparr>DJANGO_RSVP_SECRET := []\<rparr>" "ex_request [] None" ex_state]
  by (simp add: strip_def)

end
